theory Spec2Isabelle
  imports
    Complex_Main
    "HOL-Library.AList"
    "HOL-Library.Char_ord"
    "HOL-Library.List_Lexorder"
begin

section \<open>FinLogBot: validation and aggregation of the expense ledger (src/bot.py)\<close>

text \<open>
  The bot logs transactions extracted from chat text to a spreadsheet and answers
  \<^verbatim>\<open>/summary\<close> and \<^verbatim>\<open>/breakdown\<close> by scanning the sheet. This theory embeds the three
  handlers \<^verbatim>\<open>summary\<close>, \<^verbatim>\<open>monthly_breakdown_summary\<close> and \<^verbatim>\<open>handle_message\<close>.

  Conventions of the embedding:
  \<^item> a Python \<^verbatim>\<open>str\<close> is a \<open>string\<close> holding its UTF-8 bytes; bytewise lexicographic
    order of UTF-8 is the code point order Python sorts by;
  \<^item> a Python \<^verbatim>\<open>float\<close> is a \<open>pyfloat\<close>, an IEEE double: every operation computes the
    exact result and rounds it to the nearest double, ties to even, infinite when out of
    range. The two zeros are one value: no handler prints or tests the sign of a zero it
    has computed;
  \<^item> an exception is a value of \<open>exn\<close>, and a function that can raise returns
    \<open>exn + 'a\<close>;
  \<^item> the library functions whose result depends on Unicode tables or on the platform
    (\<^verbatim>\<open>float\<close> and \<^verbatim>\<open>str\<close> on text, \<^verbatim>\<open>strip\<close>, \<^verbatim>\<open>lower\<close>, \<^verbatim>\<open>strptime\<close>, \<^verbatim>\<open>strftime\<close>) are
    arguments of the handlers, gathered in a record \<open>pylib\<close>; what is proved holds for
    every such library. The examples run on \<open>ascii_lib\<close>, which does what CPython does on
    ASCII text;
  \<^item> the sheet, the chat transport and the extraction service are outside the program:
    the handlers take what these return as arguments and return what they send.
\<close>

subsection \<open>Python values: exceptions and floats\<close>

datatype exn = ValueError | TypeError | OverflowError | AttributeError string string

datatype pyfloat = Finite rat | PInf | NInf | NaN

fun bit_length :: "nat \<Rightarrow> nat" where
  "bit_length n = (if n = 0 then 0 else Suc (bit_length (n div 2)))"

declare bit_length.simps [simp del]

definition pow2 :: "int \<Rightarrow> rat" where
  "pow2 e = (if 0 \<le> e then 2 ^ nat e else 1 / 2 ^ nat (- e))"

text \<open>For \<open>0 < a\<close>, the integer \<open>e\<close> with \<open>2 ^ e \<le> a < 2 ^ (e + 1)\<close>.\<close>

definition floor_log2 :: "rat \<Rightarrow> int" where
  "floor_log2 a =
     (if 1 \<le> a then int (bit_length (nat \<lfloor>a\<rfloor>)) - 1
      else - int (bit_length (nat (- \<lfloor>- (1 / a)\<rfloor>) - 1)))"

definition round_half_even :: "rat \<Rightarrow> int" where
  "round_half_even q =
     (let f = \<lfloor>q\<rfloor>; d = q - of_int f
      in if d < 1 / 2 then f else if 1 / 2 < d then f + 1 else if even f then f else f + 1)"

text \<open>
  The double nearest to an exact value, ties to even: 53 significant bits, the least
  exponent -1022 (below it the spacing stays \<open>2 ^ -1074\<close>), infinite from \<open>2 ^ 1024\<close> on.
\<close>

definition round_double :: "rat \<Rightarrow> pyfloat" where
  "round_double q =
     (if q = 0 then Finite 0
      else
        let e = max (floor_log2 \<bar>q\<bar>) (- 1022);
            ulp = pow2 (e - 52);
            v = of_int (round_half_even (\<bar>q\<bar> / ulp)) * ulp
        in if pow2 1024 \<le> v then (if q < 0 then NInf else PInf)
           else Finite (if q < 0 then - v else v))"

fun fneg :: "pyfloat \<Rightarrow> pyfloat" where
  "fneg (Finite a) = Finite (- a)"
| "fneg PInf = NInf"
| "fneg NInf = PInf"
| "fneg NaN = NaN"

instantiation pyfloat :: "{zero, plus, minus}"
begin

definition zero_pyfloat :: pyfloat where
  "zero_pyfloat = Finite 0"

fun plus_pyfloat :: "pyfloat \<Rightarrow> pyfloat \<Rightarrow> pyfloat" where
  "plus_pyfloat (Finite a) (Finite b) = round_double (a + b)"
| "plus_pyfloat NaN y = NaN"
| "plus_pyfloat x NaN = NaN"
| "plus_pyfloat PInf NInf = NaN"
| "plus_pyfloat NInf PInf = NaN"
| "plus_pyfloat PInf y = PInf"
| "plus_pyfloat x PInf = PInf"
| "plus_pyfloat NInf y = NInf"
| "plus_pyfloat x NInf = NInf"

definition minus_pyfloat :: "pyfloat \<Rightarrow> pyfloat \<Rightarrow> pyfloat" where
  "minus_pyfloat x y = x + fneg y"

instance ..

end

text \<open>\<^verbatim>\<open>x <= 0\<close> on a float: false for NaN.\<close>

fun nonpositive :: "pyfloat \<Rightarrow> bool" where
  "nonpositive (Finite a) = (a \<le> 0)"
| "nonpositive PInf = False"
| "nonpositive NInf = True"
| "nonpositive NaN = False"

text \<open>
  An \<^verbatim>\<open>int\<close> that rounds to a double beyond the largest one cannot become a \<^verbatim>\<open>float\<close>:
  \<^verbatim>\<open>float(i)\<close> and \<^verbatim>\<open>format(i, ".2f")\<close> raise \<^verbatim>\<open>OverflowError\<close>.
\<close>

definition int_too_large :: "int \<Rightarrow> bool" where
  "int_too_large i \<longleftrightarrow> 2 ^ 1024 - 2 ^ 970 \<le> \<bar>i\<bar>"

definition float_of_int :: "int \<Rightarrow> exn + pyfloat" where
  "float_of_int i = (if int_too_large i then Inl OverflowError else Inr (round_double (of_int i)))"

subsection \<open>Text the handlers build themselves\<close>

definition newline :: string where
  "newline = [CHR 0x0A]"

definition rupee :: string where
  "rupee = [CHR 0xE2, CHR 0x82, CHR 0xB9]"

definition digit_char :: "nat \<Rightarrow> char" where
  "digit_char d = ''0123456789'' ! d"

fun str_nat :: "nat \<Rightarrow> string" where
  "str_nat n = (if n < 10 then [digit_char n] else str_nat (n div 10) @ [digit_char (n mod 10)])"

declare str_nat.simps [simp del]

text \<open>\<^verbatim>\<open>str(i)\<close> of an \<^verbatim>\<open>int\<close>.\<close>

definition str_int :: "int \<Rightarrow> string" where
  "str_int i = (if i < 0 then ''-'' @ str_nat (nat (- i)) else str_nat (nat i))"

definition pad2 :: "nat \<Rightarrow> string" where
  "pad2 n = (if n < 10 then ''0'' @ str_nat n else str_nat n)"

text \<open>
  The format specification \<^verbatim>\<open>.2f\<close> of a float: its exact value rounded half-even to two
  places, all digits of the integer part printed.
\<close>

definition fmt2_rat :: "rat \<Rightarrow> string" where
  "fmt2_rat q =
     (let n = nat (round_half_even (\<bar>q\<bar> * 100))
      in (if q < 0 then ''-'' else '''') @ str_nat (n div 100) @ ''.'' @ pad2 (n mod 100))"

fun fmt2 :: "pyfloat \<Rightarrow> string" where
  "fmt2 (Finite q) = fmt2_rat q"
| "fmt2 PInf = ''inf''"
| "fmt2 NInf = ''-inf''"
| "fmt2 NaN = ''nan''"

subsection \<open>The library the handlers call\<close>

record datetime =
  dt_year :: nat
  dt_month :: nat
  dt_day :: nat
  dt_hour :: nat
  dt_minute :: nat
  dt_second :: nat

text \<open>
  \<^item> \<open>lib_float s\<close> is \<^verbatim>\<open>float(s)\<close> on a string, \<open>None\<close> when it raises \<^verbatim>\<open>ValueError\<close>;
  \<^item> \<open>lib_repr x\<close> is \<^verbatim>\<open>str(x)\<close> of a float;
  \<^item> \<open>lib_strip s\<close> is \<^verbatim>\<open>s.strip()\<close> and \<open>lib_lower s\<close> is \<^verbatim>\<open>s.lower()\<close>;
  \<^item> \<open>lib_strptime s\<close> is \<^verbatim>\<open>datetime.strptime(s, "%Y-%m-%d %H:%M:%S")\<close>, \<open>None\<close> when it
    raises \<^verbatim>\<open>ValueError\<close>;
  \<^item> \<open>lib_strftime_Ym d\<close>, \<open>lib_strftime_BY d\<close> and \<open>lib_strftime_full d\<close> are \<^verbatim>\<open>d.strftime\<close>
    with the formats \<^verbatim>\<open>"%Y-%m"\<close>, \<^verbatim>\<open>"%B %Y"\<close> and \<^verbatim>\<open>"%Y-%m-%d %H:%M:%S"\<close>.
\<close>

record pylib =
  lib_float :: "string \<Rightarrow> pyfloat option"
  lib_repr :: "pyfloat \<Rightarrow> string"
  lib_strip :: "string \<Rightarrow> string"
  lib_lower :: "string \<Rightarrow> string"
  lib_strptime :: "string \<Rightarrow> datetime option"
  lib_strftime_Ym :: "datetime \<Rightarrow> string"
  lib_strftime_BY :: "datetime \<Rightarrow> string"
  lib_strftime_full :: "datetime \<Rightarrow> string"

subsection \<open>Ledger rows as \<^verbatim>\<open>get_all_records\<close> returns them\<close>

text \<open>
  Each row is a dictionary from column header to cell value; the sheet client turns a
  cell that reads as a number into an \<^verbatim>\<open>int\<close> or a \<^verbatim>\<open>float\<close> and leaves the others as
  \<^verbatim>\<open>str\<close>.
\<close>

datatype cell = CStr string | CInt int | CFloat pyfloat

type_synonym row = "string \<rightharpoonup> cell"

definition get :: "row \<Rightarrow> string \<Rightarrow> cell \<Rightarrow> cell" where
  "get r k d = (case r k of None \<Rightarrow> d | Some v \<Rightarrow> v)"

text \<open>\<^verbatim>\<open>float(v)\<close> and \<^verbatim>\<open>str(v)\<close> of a cell value.\<close>

fun py_float :: "pylib \<Rightarrow> cell \<Rightarrow> exn + pyfloat" where
  "py_float lib (CStr s) = (case lib_float lib s of None \<Rightarrow> Inl ValueError | Some x \<Rightarrow> Inr x)"
| "py_float lib (CInt i) = float_of_int i"
| "py_float lib (CFloat x) = Inr x"

fun py_str :: "pylib \<Rightarrow> cell \<Rightarrow> string" where
  "py_str lib (CStr s) = s"
| "py_str lib (CInt i) = str_int i"
| "py_str lib (CFloat x) = lib_repr lib x"

text \<open>The name of a cell's Python type, as exception messages print it.\<close>

fun type_name :: "cell \<Rightarrow> string" where
  "type_name (CStr s) = ''str''"
| "type_name (CInt i) = ''int''"
| "type_name (CFloat x) = ''float''"

text \<open>A loop whose body can raise: the first exception that escapes ends the loop.\<close>

fun for_each :: "('s \<Rightarrow> 'a \<Rightarrow> exn + 's) \<Rightarrow> 'a list \<Rightarrow> 's \<Rightarrow> exn + 's" where
  "for_each f [] s = Inr s"
| "for_each f (x # xs) s = (case f s x of Inl e \<Rightarrow> Inl e | Inr s' \<Rightarrow> for_each f xs s')"

subsection \<open>Extracted records and replies\<close>

text \<open>
  \<^verbatim>\<open>parse_expense\<close> returns what \<^verbatim>\<open>json.loads\<close> makes of the extraction service's answer,
  or \<^verbatim>\<open>None\<close>: any JSON value, \<open>JNull\<close> being \<^verbatim>\<open>None\<close>. \<^verbatim>\<open>json.loads\<close> reads a number
  too large for a double, such as \<^verbatim>\<open>1e999\<close>, as infinity, and accepts \<^verbatim>\<open>NaN\<close>.
\<close>

datatype json =
    JNull
  | JBool bool
  | JInt int
  | JFloat pyfloat
  | JStr string
  | JArr "json list"
  | JObj "(string \<times> json) list"

text \<open>
  What a handler passes to \<^verbatim>\<open>bot.reply_to\<close>. A message that interpolates an exception or
  an extracted value keeps it as an argument instead of printing it: \<open>ErrorText p e\<close> is
  the prefix \<open>p\<close> followed by the text of \<open>e\<close>, \<open>Logged typ description amount\<close> is the
  confirmation of line 276 and \<open>LogFailed e\<close> the failure notice of line 278 for an
  exception whose text is \<open>e\<close>.
\<close>

datatype reply =
    Text string
  | Markdown string
  | ErrorText string exn
  | Logged string json json
  | LogFailed string

subsection \<open>\<^verbatim>\<open>summary\<close>: the global totals\<close>

text \<open>The body of the inner \<^verbatim>\<open>try\<close>, on the pair (total_expense, total_income).\<close>

definition summary_row :: "pylib \<Rightarrow> pyfloat \<times> pyfloat \<Rightarrow> row \<Rightarrow> exn + pyfloat \<times> pyfloat" where
  "summary_row lib acc r =
     (case acc of
        (total_expense, total_income) \<Rightarrow>
          (case py_float lib (get r ''amount'' (CInt 0)) of
             Inl e \<Rightarrow> Inl e
           | Inr amount \<Rightarrow>
               (let record_type = lib_lower lib (py_str lib (get r ''type'' (CStr '''')))
                in if record_type = ''expense'' then Inr (total_expense + amount, total_income)
                   else if record_type = ''income'' then Inr (total_expense, total_income + amount)
                   else Inr (total_expense, total_income))))"

text \<open>\<^verbatim>\<open>except ValueError: continue\<close>; any other exception leaves the loop.\<close>

definition summary_step :: "pylib \<Rightarrow> pyfloat \<times> pyfloat \<Rightarrow> row \<Rightarrow> exn + pyfloat \<times> pyfloat" where
  "summary_step lib acc r =
     (case summary_row lib acc r of
        Inl ValueError \<Rightarrow> Inr acc
      | Inl e \<Rightarrow> Inl e
      | Inr acc' \<Rightarrow> Inr acc')"

definition summary_totals :: "pylib \<Rightarrow> row list \<Rightarrow> exn + pyfloat \<times> pyfloat" where
  "summary_totals lib records = for_each (summary_step lib) records (0, 0)"

definition chart_emoji :: string where
  "chart_emoji = [CHR 0xF0, CHR 0x9F, CHR 0x93, CHR 0x8A]"

definition summary_msg :: "pyfloat \<Rightarrow> pyfloat \<Rightarrow> string" where
  "summary_msg total_income total_expense =
     chart_emoji @ '' Expense Summary:'' @ newline @
     ''Total Income: '' @ rupee @ fmt2 total_income @ newline @
     ''Total Expense: '' @ rupee @ fmt2 total_expense @ newline @
     ''Balance: '' @ rupee @ fmt2 (total_income - total_expense)"

text \<open>The outer \<^verbatim>\<open>except Exception\<close> turns what left the loop into an error reply.\<close>

definition summary :: "pylib \<Rightarrow> row list \<Rightarrow> reply" where
  "summary lib records =
     (case summary_totals lib records of
        Inr (total_expense, total_income) \<Rightarrow> Text (summary_msg total_income total_expense)
      | Inl e \<Rightarrow> ErrorText ''Error retrieving summary: '' e)"

subsection \<open>\<^verbatim>\<open>monthly_breakdown_summary\<close>: the buckets\<close>

record month_entry =
  month_name :: string
  expenses :: "(string \<times> pyfloat) list"
  income :: pyfloat
  total_monthly_expense :: pyfloat
  total_monthly_income :: pyfloat

text \<open>
  A dictionary that is later iterated is an association list with distinct keys, in
  insertion order: \<open>AList.update\<close> replaces the value of a key that is present and adds a
  new key at the end, as assignment to a Python \<^verbatim>\<open>dict\<close> item does.
\<close>

type_synonym monthly = "(string \<times> month_entry) list"

text \<open>\<^verbatim>\<open>not timestamp_str\<close> holds of \<^verbatim>\<open>None\<close>, the empty string and zero.\<close>

fun truthy :: "cell option \<Rightarrow> bool" where
  "truthy None = False"
| "truthy (Some (CStr s)) = (s \<noteq> [])"
| "truthy (Some (CInt i)) = (i \<noteq> 0)"
| "truthy (Some (CFloat x)) = (x \<noteq> Finite 0)"

text \<open>\<^verbatim>\<open>.strip()\<close> exists on strings only.\<close>

fun py_strip :: "pylib \<Rightarrow> cell \<Rightarrow> exn + string" where
  "py_strip lib (CStr s) = Inr (lib_strip lib s)"
| "py_strip lib c = Inl (AttributeError (type_name c) ''strip'')"

text \<open>\<^verbatim>\<open>strptime\<close> raises \<^verbatim>\<open>TypeError\<close> on what is not a string.\<close>

fun py_strptime :: "pylib \<Rightarrow> cell option \<Rightarrow> exn + datetime" where
  "py_strptime lib (Some (CStr s)) =
     (case lib_strptime lib s of None \<Rightarrow> Inl ValueError | Some d \<Rightarrow> Inr d)"
| "py_strptime lib c = Inl TypeError"

definition new_month_entry :: "string \<Rightarrow> month_entry" where
  "new_month_entry name =
     \<lparr>month_name = name, expenses = [], income = 0, total_monthly_expense = 0,
      total_monthly_income = 0\<rparr>"

text \<open>Lines 200 to 206: the row's amount goes into the entry of its month.\<close>

definition aggregate :: "string \<Rightarrow> string \<Rightarrow> pyfloat \<Rightarrow> month_entry \<Rightarrow> month_entry" where
  "aggregate typ category amount month_entry =
     (if typ = ''expense'' then
        month_entry
          \<lparr>expenses :=
             AList.update category
               ((case map_of (expenses month_entry) category of None \<Rightarrow> 0 | Some v \<Rightarrow> v) + amount)
               (expenses month_entry),
           total_monthly_expense := total_monthly_expense month_entry + amount\<rparr>
      else if typ = ''income'' then
        month_entry
          \<lparr>income := income month_entry + amount,
           total_monthly_income := total_monthly_income month_entry + amount\<rparr>
      else month_entry)"

text \<open>
  The body of the \<^verbatim>\<open>try\<close> in the loop; \<open>Inr monthly_data\<close> unchanged is \<^verbatim>\<open>continue\<close>. The
  test \<^verbatim>\<open>isinstance(amount, (int, float))\<close> of line 179 is true of every result of
  \<^verbatim>\<open>float\<close>.
\<close>

definition breakdown_row :: "pylib \<Rightarrow> monthly \<Rightarrow> row \<Rightarrow> exn + monthly" where
  "breakdown_row lib monthly_data r =
     (let timestamp_str = r ''timestamp''
      in (case py_strip lib (get r ''category'' (CStr ''N/A'')) of
            Inl e \<Rightarrow> Inl e
          | Inr stripped \<Rightarrow>
              (let category = (if stripped = [] then ''Uncategorized'' else stripped)
               in (case py_float lib (get r ''amount'' (CInt 0)) of
                     Inl e \<Rightarrow> Inl e
                   | Inr amount \<Rightarrow>
                       (let typ = lib_lower lib (py_str lib (get r ''type'' (CStr '''')))
                        in if \<not> truthy timestamp_str \<or> nonpositive amount
                           then Inr monthly_data
                           else
                             (case py_strptime lib timestamp_str of
                                Inl e \<Rightarrow> Inl e
                              | Inr dt_object \<Rightarrow>
                                  (let month_key = lib_strftime_Ym lib dt_object;
                                       month_entry =
                                         (case map_of monthly_data month_key of
                                            None \<Rightarrow>
                                              new_month_entry (lib_strftime_BY lib dt_object)
                                          | Some e \<Rightarrow> e)
                                   in Inr (AList.update month_key
                                             (aggregate typ category amount month_entry)
                                             monthly_data))))))))"

text \<open>\<^verbatim>\<open>except (ValueError, TypeError): continue\<close>; any other exception leaves the loop.\<close>

definition breakdown_step :: "pylib \<Rightarrow> monthly \<Rightarrow> row \<Rightarrow> exn + monthly" where
  "breakdown_step lib monthly_data r =
     (case breakdown_row lib monthly_data r of
        Inl ValueError \<Rightarrow> Inr monthly_data
      | Inl TypeError \<Rightarrow> Inr monthly_data
      | Inl e \<Rightarrow> Inl e
      | Inr monthly_data' \<Rightarrow> Inr monthly_data')"

text \<open>The loop of lines 170 to 210, from the empty dictionary.\<close>

definition monthly_data_of :: "pylib \<Rightarrow> row list \<Rightarrow> exn + monthly" where
  "monthly_data_of lib records = for_each (breakdown_step lib) records []"

subsection \<open>\<^verbatim>\<open>monthly_breakdown_summary\<close>: the report\<close>

definition chart_up_emoji :: string where
  "chart_up_emoji = [CHR 0xF0, CHR 0x9F, CHR 0x93, CHR 0x88]"

definition money_bag_emoji :: string where
  "money_bag_emoji = [CHR 0xF0, CHR 0x9F, CHR 0x92, CHR 0xB0]"

definition money_wings_emoji :: string where
  "money_wings_emoji = [CHR 0xF0, CHR 0x9F, CHR 0x92, CHR 0xB8]"

definition sorted_categories :: "month_entry \<Rightarrow> (string \<times> pyfloat) list" where
  "sorted_categories month_entry = sort_key fst (expenses month_entry)"

definition category_line :: "string \<times> pyfloat \<Rightarrow> string" where
  "category_line item =
     (case item of (category, amount) \<Rightarrow>
        ''  - '' @ category @ '': '' @ rupee @ fmt2 amount @ newline)"

definition expenses_part :: "month_entry \<Rightarrow> string" where
  "expenses_part month_entry =
     (if expenses month_entry \<noteq> [] then
        money_wings_emoji @ '' Expenses by Category:'' @ newline @
        concat (map category_line (sorted_categories month_entry))
      else money_wings_emoji @ '' No expenses recorded for this month.'' @ newline)"

definition totals_part :: "month_entry \<Rightarrow> string" where
  "totals_part month_entry =
     (let monthly_balance = total_monthly_income month_entry - total_monthly_expense month_entry
      in ''Total Monthly Expense: '' @ rupee @ fmt2 (total_monthly_expense month_entry) @ newline @
         ''Monthly Balance: '' @ rupee @ fmt2 monthly_balance @ newline @ newline)"

text \<open>What one turn of the loop of lines 224 to 246 adds to the message, in its two halves.\<close>

definition section_head :: "month_entry \<Rightarrow> string" where
  "section_head month_entry =
     ''--- **'' @ month_name month_entry @ ''** ---'' @ newline @
     money_bag_emoji @ '' Income: '' @ rupee @ fmt2 (income month_entry) @ newline @
     expenses_part month_entry"

definition month_section :: "month_entry \<Rightarrow> string" where
  "month_section month_entry = section_head month_entry @ totals_part month_entry"

definition sorted_months :: "monthly \<Rightarrow> string list" where
  "sorted_months md = sort (map fst md)"

text \<open>The sections in the order of the loop; every key comes from the dictionary.\<close>

definition month_sections :: "monthly \<Rightarrow> string list" where
  "month_sections md =
     map (\<lambda>month_key.
            case map_of md month_key of
              None \<Rightarrow> []
            | Some month_entry \<Rightarrow> month_section month_entry)
         (sorted_months md)"

definition breakdown_header :: string where
  "breakdown_header =
     chart_up_emoji @ '' **Monthly Financial Breakdown** '' @ chart_up_emoji @ newline @ newline"

definition breakdown_msg :: "monthly \<Rightarrow> string" where
  "breakdown_msg md = breakdown_header @ concat (month_sections md)"

definition monthly_breakdown_summary :: "pylib \<Rightarrow> row list \<Rightarrow> reply" where
  "monthly_breakdown_summary lib records =
     (if records = [] then Text ''Your sheet is empty. No breakdown available.''
      else
        (case monthly_data_of lib records of
           Inl e \<Rightarrow> ErrorText ''Error generating breakdown summary: '' e
         | Inr md \<Rightarrow>
             if sorted_months md = []
             then Text ''No valid financial records found to generate a breakdown.''
             else Markdown (breakdown_msg md)))"

subsection \<open>\<^verbatim>\<open>handle_message\<close>: validating and logging an extracted record\<close>

text \<open>\<^verbatim>\<open>if parsed:\<close>\<close>

fun truthy_json :: "json \<Rightarrow> bool" where
  "truthy_json JNull = False"
| "truthy_json (JBool b) = b"
| "truthy_json (JInt i) = (i \<noteq> 0)"
| "truthy_json (JFloat x) = (x \<noteq> Finite 0)"
| "truthy_json (JStr s) = (s \<noteq> [])"
| "truthy_json (JArr xs) = (xs \<noteq> [])"
| "truthy_json (JObj kvs) = (kvs \<noteq> [])"

fun json_type_name :: "json \<Rightarrow> string" where
  "json_type_name JNull = ''NoneType''"
| "json_type_name (JBool b) = ''bool''"
| "json_type_name (JInt i) = ''int''"
| "json_type_name (JFloat x) = ''float''"
| "json_type_name (JStr s) = ''str''"
| "json_type_name (JArr xs) = ''list''"
| "json_type_name (JObj kvs) = ''dict''"

definition dict_get :: "(string \<times> json) list \<Rightarrow> string \<Rightarrow> json \<Rightarrow> json" where
  "dict_get kvs k d = (case map_of kvs k of None \<Rightarrow> d | Some v \<Rightarrow> v)"

text \<open>\<^verbatim>\<open>.lower()\<close> exists on strings only.\<close>

fun py_lower :: "pylib \<Rightarrow> json \<Rightarrow> exn + string" where
  "py_lower lib (JStr s) = Inr (lib_lower lib s)"
| "py_lower lib v = Inl (AttributeError (json_type_name v) ''lower'')"

text \<open>
  Line 270: \<^verbatim>\<open>not isinstance(amount, (int, float)) or amount <= 0\<close>. A \<^verbatim>\<open>bool\<close> is an
  \<^verbatim>\<open>int\<close> in Python, \<^verbatim>\<open>True\<close> being 1.
\<close>

fun amount_rejected :: "json \<Rightarrow> bool" where
  "amount_rejected (JInt i) = (i \<le> 0)"
| "amount_rejected (JFloat x) = nonpositive x"
| "amount_rejected (JBool b) = (\<not> b)"
| "amount_rejected v = True"

definition invalid_amount_msg :: string where
  "invalid_amount_msg =
     ''Sorry, I couldn't extract a valid positive amount from your message. Please try again.''"

definition not_understood_msg :: string where
  "not_understood_msg =
     ''Sorry, I couldn't understand your message. Please try again with details like 'Bought snacks '' @
     rupee @ ''150' or 'Received salary '' @ rupee @ ''50000'.''"

text \<open>
  Line 276, reached when \<^verbatim>\<open>append_row\<close> has returned: building the confirmation formats the
  amount with \<^verbatim>\<open>.2f\<close>, which raises for an \<^verbatim>\<open>int\<close> too large for a float; the \<^verbatim>\<open>except\<close>
  clause of line 277 then sends the failure notice, with the row already appended.
\<close>

definition confirmation :: "string \<Rightarrow> json \<Rightarrow> json \<Rightarrow> reply" where
  "confirmation typ description amount =
     (case amount of
        JInt i \<Rightarrow>
          if int_too_large i then LogFailed ''int too large to convert to float''
          else Logged typ description amount
      | _ \<Rightarrow> Logged typ description amount)"

text \<open>
  The handler, given the sheet's \<^verbatim>\<open>append_row\<close> (which returns the sheet after the call
  and the text of the exception it raised, if any), the current time and the result of
  \<^verbatim>\<open>parse_expense\<close>. It returns the sheet and either the reply sent or the exception that
  escaped.
\<close>

definition handle_message ::
  "pylib \<Rightarrow> (json list \<Rightarrow> 's \<Rightarrow> 's \<times> string option) \<Rightarrow> datetime \<Rightarrow> json \<Rightarrow> 's \<Rightarrow>
   's \<times> (exn + reply)"
where
  "handle_message lib append_row now parsed sheet =
     (if truthy_json parsed then
        (case parsed of
           JObj kvs \<Rightarrow>
             (let timestamp = lib_strftime_full lib now;
                  description = dict_get kvs ''description'' (JStr ''N/A'');
                  category = dict_get kvs ''category'' (JStr ''N/A'');
                  amount = dict_get kvs ''amount'' (JInt 0)
              in (case py_lower lib (dict_get kvs ''type'' (JStr ''expense'')) of
                    Inl e \<Rightarrow> (sheet, Inl e)
                  | Inr typ \<Rightarrow>
                      if amount_rejected amount then (sheet, Inr (Text invalid_amount_msg))
                      else
                        (case append_row [JStr timestamp, description, category, amount, JStr typ]
                                sheet of
                           (sheet', None) \<Rightarrow> (sheet', Inr (confirmation typ description amount))
                         | (sheet', Some e) \<Rightarrow> (sheet', Inr (LogFailed e)))))
         | _ \<Rightarrow> (sheet, Inl (AttributeError (json_type_name parsed) ''get'')))
      else (sheet, Inr (Text not_understood_msg)))"

subsection \<open>The library on ASCII text\<close>

text \<open>
  \<open>ascii_lib\<close> is the library the examples run on. Its functions do what CPython's do on
  strings of ASCII characters, on Linux and with month names in English; beyond ASCII the
  real functions also know the white space, digits and letters of Unicode. Its \<open>lib_repr\<close> prints the special values and whole numbers as Python does and
  other floats by their decimal expansion, which is not the shortest form Python prints.
\<close>

definition ascii_lower_char :: "char \<Rightarrow> char" where
  "ascii_lower_char c =
     (case map_of (zip ''ABCDEFGHIJKLMNOPQRSTUVWXYZ'' ''abcdefghijklmnopqrstuvwxyz'') c of
        None \<Rightarrow> c
      | Some l \<Rightarrow> l)"

definition ascii_lower :: "string \<Rightarrow> string" where
  "ascii_lower s = map ascii_lower_char s"

definition is_space :: "char \<Rightarrow> bool" where
  "is_space c = (let n = (of_char c :: nat) in (9 \<le> n \<and> n \<le> 13) \<or> (28 \<le> n \<and> n \<le> 32))"

definition ascii_strip :: "string \<Rightarrow> string" where
  "ascii_strip s = rev (dropWhile is_space (rev (dropWhile is_space s)))"

definition is_digit :: "char \<Rightarrow> bool" where
  "is_digit c = (let n = (of_char c :: nat) in 48 \<le> n \<and> n \<le> 57)"

definition digit_val :: "char \<Rightarrow> nat" where
  "digit_val c = of_char c - 48"

text \<open>The white space that \<^verbatim>\<open>float\<close> drops around an ASCII string: blank, tab, line feed,
  vertical tab, form feed and carriage return.\<close>

definition is_c_space :: "char \<Rightarrow> bool" where
  "is_c_space c = (let n = (of_char c :: nat) in (9 \<le> n \<and> n \<le> 13) \<or> n = 32)"

definition c_strip :: "string \<Rightarrow> string" where
  "c_strip s = rev (dropWhile is_c_space (rev (dropWhile is_c_space s)))"

text \<open>
  \<^verbatim>\<open>float(s)\<close>: surrounding white space is dropped; then an optional sign and \<^verbatim>\<open>inf\<close>,
  \<^verbatim>\<open>infinity\<close> or \<^verbatim>\<open>nan\<close> in any case, or a decimal number with an optional fraction and
  exponent, where single underscores may separate digits; the value is the double nearest
  to the number written. Anything else raises \<^verbatim>\<open>ValueError\<close>, here \<open>None\<close>.
\<close>

fun digits_acc :: "nat \<Rightarrow> nat \<Rightarrow> string \<Rightarrow> nat \<times> nat \<times> string" where
  "digits_acc v k [] = (v, k, [])"
| "digits_acc v k (c # cs) =
     (if is_digit c then digits_acc (10 * v + digit_val c) (Suc k) cs
      else if c = CHR ''_'' \<and> (case cs of [] \<Rightarrow> False | d # _ \<Rightarrow> is_digit d) then digits_acc v k cs
      else (v, k, c # cs))"

definition digitpart :: "string \<Rightarrow> (nat \<times> nat \<times> string) option" where
  "digitpart s =
     (case s of [] \<Rightarrow> None | c # cs \<Rightarrow> if is_digit c then Some (digits_acc 0 0 s) else None)"

definition sign_split :: "string \<Rightarrow> bool \<times> string" where
  "sign_split s =
     (case s of
        [] \<Rightarrow> (False, [])
      | c # cs \<Rightarrow>
          if c = CHR ''-'' then (True, cs) else if c = CHR ''+'' then (False, cs) else (False, s))"

definition mantissa :: "string \<Rightarrow> (rat \<times> string) option" where
  "mantissa s =
     (case digitpart s of
        Some (v, k, r) \<Rightarrow>
          (case r of
             [] \<Rightarrow> Some (of_nat v, [])
           | c # r' \<Rightarrow>
               if c = CHR ''.'' then
                 (case digitpart r' of
                    Some (w, j, r'') \<Rightarrow> Some (of_nat v + of_nat w / 10 ^ j, r'')
                  | None \<Rightarrow> Some (of_nat v, r'))
               else Some (of_nat v, r))
      | None \<Rightarrow>
          (case s of
             [] \<Rightarrow> None
           | c # r' \<Rightarrow>
               if c = CHR ''.'' then
                 (case digitpart r' of
                    Some (w, j, r'') \<Rightarrow> Some (of_nat w / 10 ^ j, r'')
                  | None \<Rightarrow> None)
               else None))"

definition exponent :: "string \<Rightarrow> int option" where
  "exponent r =
     (case r of
        [] \<Rightarrow> Some 0
      | c # r' \<Rightarrow>
          if c = CHR ''e'' \<or> c = CHR ''E'' then
            (case sign_split r' of
               (neg, r2) \<Rightarrow>
                 (case digitpart r2 of
                    Some (v, k, r3) \<Rightarrow>
                      if r3 = [] then Some (if neg then - int v else int v) else None
                  | None \<Rightarrow> None))
          else None)"

definition pow10 :: "int \<Rightarrow> rat" where
  "pow10 e = (if 0 \<le> e then 10 ^ nat e else 1 / 10 ^ nat (- e))"

definition ascii_float :: "string \<Rightarrow> pyfloat option" where
  "ascii_float s =
     (case sign_split (c_strip s) of
        (neg, u) \<Rightarrow>
          if ascii_lower u = ''inf'' \<or> ascii_lower u = ''infinity'' then Some (if neg then NInf else PInf)
          else if ascii_lower u = ''nan'' then Some NaN
          else
            (case mantissa u of
               None \<Rightarrow> None
             | Some (m, r) \<Rightarrow>
                 (case exponent r of
                    None \<Rightarrow> None
                  | Some e \<Rightarrow> Some (round_double ((if neg then - m else m) * pow10 e)))))"

fun frac_digits :: "nat \<Rightarrow> rat \<Rightarrow> string" where
  "frac_digits 0 q = []"
| "frac_digits (Suc n) q =
     (if q = 0 then []
      else digit_char (nat \<lfloor>q * 10\<rfloor>) # frac_digits n (q * 10 - of_int \<lfloor>q * 10\<rfloor>))"

definition str_rat :: "rat \<Rightarrow> string" where
  "str_rat q =
     (let a = \<bar>q\<bar>; f = a - of_int \<lfloor>a\<rfloor>
      in (if q < 0 then ''-'' else '''') @ str_nat (nat \<lfloor>a\<rfloor>) @ ''.'' @
         (if f = 0 then ''0'' else frac_digits 17 f))"

fun ascii_repr :: "pyfloat \<Rightarrow> string" where
  "ascii_repr (Finite q) = str_rat q"
| "ascii_repr PInf = ''inf''"
| "ascii_repr NInf = ''-inf''"
| "ascii_repr NaN = ''nan''"

text \<open>
  \<^verbatim>\<open>strptime\<close> turns the format \<^verbatim>\<open>%Y-%m-%d %H:%M:%S\<close> into a regular expression, one
  group of ordered alternatives per directive and \<^verbatim>\<open>\s+\<close> for the blank, takes the first
  match the backtracking search finds and rejects it when input is left over. Each
  function below lists the ways one piece can match, in the order the search tries them,
  with the input that remains.
\<close>

definition two_digits :: "(nat \<Rightarrow> nat \<Rightarrow> bool) \<Rightarrow> string \<Rightarrow> (nat \<times> string) list" where
  "two_digits ok s =
     (case s of
        a # b # r \<Rightarrow>
          if is_digit a \<and> is_digit b \<and> ok (digit_val a) (digit_val b)
          then [(10 * digit_val a + digit_val b, r)] else []
      | _ \<Rightarrow> [])"

definition one_digit :: "(nat \<Rightarrow> bool) \<Rightarrow> string \<Rightarrow> (nat \<times> string) list" where
  "one_digit ok s =
     (case s of a # r \<Rightarrow> if is_digit a \<and> ok (digit_val a) then [(digit_val a, r)] else [] | [] \<Rightarrow> [])"

definition lit :: "char \<Rightarrow> string \<Rightarrow> string list" where
  "lit c s = (case s of a # r \<Rightarrow> if a = c then [r] else [] | [] \<Rightarrow> [])"

text \<open>\<^verbatim>\<open>\s+\<close>: one or more blanks, the longest run first.\<close>

fun blanks :: "string \<Rightarrow> string list" where
  "blanks [] = []"
| "blanks (c # r) = (if is_space c then blanks r @ [r] else [])"

text \<open>\<^verbatim>\<open>%Y\<close> is \<^verbatim>\<open>\d\d\d\d\<close>.\<close>

definition re_Y :: "string \<Rightarrow> (nat \<times> string) list" where
  "re_Y s =
     (case s of
        a # b # c # d # r \<Rightarrow>
          if is_digit a \<and> is_digit b \<and> is_digit c \<and> is_digit d
          then [(1000 * digit_val a + 100 * digit_val b + 10 * digit_val c + digit_val d, r)]
          else []
      | _ \<Rightarrow> [])"

text \<open>\<^verbatim>\<open>%m\<close> is \<^verbatim>\<open>1[0-2]|0[1-9]|[1-9]\<close>.\<close>

definition re_m :: "string \<Rightarrow> (nat \<times> string) list" where
  "re_m s =
     two_digits (\<lambda>a b. a = 1 \<and> b \<le> 2) s @ two_digits (\<lambda>a b. a = 0 \<and> 1 \<le> b) s @
     one_digit (\<lambda>a. 1 \<le> a) s"

text \<open>\<^verbatim>\<open>%d\<close> is \<^verbatim>\<open>3[0-1]|[1-2]\d|0[1-9]|[1-9]| [1-9]\<close>.\<close>

definition re_d :: "string \<Rightarrow> (nat \<times> string) list" where
  "re_d s =
     two_digits (\<lambda>a b. a = 3 \<and> b \<le> 1) s @ two_digits (\<lambda>a b. 1 \<le> a \<and> a \<le> 2) s @
     two_digits (\<lambda>a b. a = 0 \<and> 1 \<le> b) s @ one_digit (\<lambda>a. 1 \<le> a) s @
     concat (map (one_digit (\<lambda>a. 1 \<le> a)) (lit (CHR '' '') s))"

text \<open>\<^verbatim>\<open>%H\<close> is \<^verbatim>\<open>2[0-3]|[0-1]\d|\d\<close>.\<close>

definition re_H :: "string \<Rightarrow> (nat \<times> string) list" where
  "re_H s =
     two_digits (\<lambda>a b. a = 2 \<and> b \<le> 3) s @ two_digits (\<lambda>a b. a \<le> 1) s @
     one_digit (\<lambda>a. True) s"

text \<open>\<^verbatim>\<open>%M\<close> is \<^verbatim>\<open>[0-5]\d|\d\<close>.\<close>

definition re_M :: "string \<Rightarrow> (nat \<times> string) list" where
  "re_M s = two_digits (\<lambda>a b. a \<le> 5) s @ one_digit (\<lambda>a. True) s"

text \<open>\<^verbatim>\<open>%S\<close> is \<^verbatim>\<open>6[0-1]|[0-5]\d|\d\<close>.\<close>

definition re_S :: "string \<Rightarrow> (nat \<times> string) list" where
  "re_S s =
     two_digits (\<lambda>a b. a = 6 \<and> b \<le> 1) s @ two_digits (\<lambda>a b. a \<le> 5) s @
     one_digit (\<lambda>a. True) s"

definition ascii_strptime_matches :: "string \<Rightarrow> (datetime \<times> string) list" where
  "ascii_strptime_matches s0 =
     List.bind (re_Y s0) (\<lambda>(Y, s1).
     List.bind (lit (CHR ''-'') s1) (\<lambda>s2.
     List.bind (re_m s2) (\<lambda>(m, s3).
     List.bind (lit (CHR ''-'') s3) (\<lambda>s4.
     List.bind (re_d s4) (\<lambda>(d, s5).
     List.bind (blanks s5) (\<lambda>s6.
     List.bind (re_H s6) (\<lambda>(H, s7).
     List.bind (lit (CHR '':'') s7) (\<lambda>s8.
     List.bind (re_M s8) (\<lambda>(M, s9).
     List.bind (lit (CHR '':'') s9) (\<lambda>s10.
     List.bind (re_S s10) (\<lambda>(S, s11).
       [(\<lparr>dt_year = Y, dt_month = m, dt_day = d, dt_hour = H, dt_minute = M, dt_second = S\<rparr>,
         s11)])))))))))))"

definition leap :: "nat \<Rightarrow> bool" where
  "leap y = (y mod 4 = 0 \<and> (y mod 100 \<noteq> 0 \<or> y mod 400 = 0))"

definition days_in_month :: "nat \<Rightarrow> nat \<Rightarrow> nat" where
  "days_in_month y m =
     (if m = 2 then (if leap y then 29 else 28)
      else if m = 4 \<or> m = 6 \<or> m = 9 \<or> m = 11 then 30 else 31)"

text \<open>The fields that matched must be a date and time \<^verbatim>\<open>datetime\<close> accepts.\<close>

definition valid_datetime :: "datetime \<Rightarrow> bool" where
  "valid_datetime d =
     (1 \<le> dt_year d \<and> dt_year d \<le> 9999 \<and> 1 \<le> dt_month d \<and> dt_month d \<le> 12 \<and>
      1 \<le> dt_day d \<and> dt_day d \<le> days_in_month (dt_year d) (dt_month d) \<and>
      dt_hour d \<le> 23 \<and> dt_minute d \<le> 59 \<and> dt_second d \<le> 59)"

text \<open>\<open>None\<close> is \<^verbatim>\<open>ValueError\<close>.\<close>

definition ascii_strptime :: "string \<Rightarrow> datetime option" where
  "ascii_strptime s =
     (case ascii_strptime_matches s of
        [] \<Rightarrow> None
      | (d, rest) # _ \<Rightarrow> if rest = [] \<and> valid_datetime d then Some d else None)"

text \<open>\<^verbatim>\<open>strftime("%Y-%m")\<close>; the C library of Linux prints the year without padding.\<close>

definition ascii_strftime_Ym :: "datetime \<Rightarrow> string" where
  "ascii_strftime_Ym d = str_nat (dt_year d) @ ''-'' @ pad2 (dt_month d)"

definition month_names :: "string list" where
  "month_names =
     [''January'', ''February'', ''March'', ''April'', ''May'', ''June'', ''July'',
      ''August'', ''September'', ''October'', ''November'', ''December'']"

text \<open>\<^verbatim>\<open>strftime("%B %Y")\<close>.\<close>

definition ascii_strftime_BY :: "datetime \<Rightarrow> string" where
  "ascii_strftime_BY d = month_names ! (dt_month d - 1) @ '' '' @ str_nat (dt_year d)"

text \<open>\<^verbatim>\<open>strftime("%Y-%m-%d %H:%M:%S")\<close>.\<close>

definition ascii_strftime_full :: "datetime \<Rightarrow> string" where
  "ascii_strftime_full d =
     str_nat (dt_year d) @ ''-'' @ pad2 (dt_month d) @ ''-'' @ pad2 (dt_day d) @ '' '' @
     pad2 (dt_hour d) @ '':'' @ pad2 (dt_minute d) @ '':'' @ pad2 (dt_second d)"

definition ascii_lib :: pylib where
  "ascii_lib =
     \<lparr>lib_float = ascii_float, lib_repr = ascii_repr, lib_strip = ascii_strip,
      lib_lower = ascii_lower, lib_strptime = ascii_strptime,
      lib_strftime_Ym = ascii_strftime_Ym, lib_strftime_BY = ascii_strftime_BY,
      lib_strftime_full = ascii_strftime_full\<rparr>"

text \<open>A sheet held in memory: the list of the rows appended, and no failure.\<close>

definition append_in_memory :: "json list \<Rightarrow> json list list \<Rightarrow> json list list \<times> string option" where
  "append_in_memory r sheet = (sheet @ [r], None)"

subsection \<open>The specification's wording, and example data\<close>

text \<open>The kind of a row, as both loops read it.\<close>

definition row_kind :: "pylib \<Rightarrow> row \<Rightarrow> string" where
  "row_kind lib r = lib_lower lib (py_str lib (get r ''type'' (CStr '''')))"

text \<open>
  A sum as Python computes it: a total that starts at \<^verbatim>\<open>0.0\<close> and to which the amounts
  are added one by one, in order.
\<close>

definition py_sum :: "pyfloat list \<Rightarrow> pyfloat" where
  "py_sum xs = foldl (+) 0 xs"



text \<open>
  The validator as the specification words it: the amount is a finite number strictly
  greater than zero.
\<close>

fun spec_valid_amount :: "json \<Rightarrow> bool" where
  "spec_valid_amount (JInt i) = (0 < i)"
| "spec_valid_amount (JFloat (Finite q)) = (0 < q)"
| "spec_valid_amount v = False"

text \<open>
  What the breakdown takes from a row it includes (specification, section 4.4): the key and
  the label of the month of its timestamp, its kind, its category once stripped, with
  \<^verbatim>\<open>Uncategorized\<close> for an empty one, and its amount. A row has no posting when its
  timestamp is empty or does not parse, or when its amount does not convert to a number
  or is \<^verbatim>\<open><= 0\<close>.
\<close>

record posting =
  post_key :: string
  post_label :: string
  post_kind :: string
  post_category :: string
  post_amount :: pyfloat

definition posting_of :: "pylib \<Rightarrow> row \<Rightarrow> posting option" where
  "posting_of lib r =
     (case py_strip lib (get r ''category'' (CStr ''N/A'')) of
        Inl e \<Rightarrow> None
      | Inr stripped \<Rightarrow>
          (case py_float lib (get r ''amount'' (CInt 0)) of
             Inl e \<Rightarrow> None
           | Inr a \<Rightarrow>
               if \<not> truthy (r ''timestamp'') \<or> nonpositive a then None
               else
                 (case py_strptime lib (r ''timestamp'') of
                    Inl e \<Rightarrow> None
                  | Inr d \<Rightarrow>
                      Some \<lparr>post_key = lib_strftime_Ym lib d, post_label = lib_strftime_BY lib d,
                            post_kind = row_kind lib r,
                            post_category = (if stripped = [] then ''Uncategorized'' else stripped),
                            post_amount = a\<rparr>)))"

definition postings :: "pylib \<Rightarrow> row list \<Rightarrow> posting list" where
  "postings lib records = List.map_filter (posting_of lib) records"

text \<open>The amounts of a month by kind, and its expense amounts by category, in ledger order.\<close>

definition month_amounts :: "string \<Rightarrow> string \<Rightarrow> posting list \<Rightarrow> pyfloat list" where
  "month_amounts k kind ps =
     map post_amount (filter (\<lambda>p. post_key p = k \<and> post_kind p = kind) ps)"

definition category_amounts :: "string \<Rightarrow> string \<Rightarrow> posting list \<Rightarrow> pyfloat list" where
  "category_amounts k c ps =
     map post_amount
       (filter (\<lambda>p. post_key p = k \<and> post_kind p = ''expense'' \<and> post_category p = c) ps)"

text \<open>An entry of the dictionary holds the running sums of the postings of its month.\<close>

definition entry_refines :: "string \<Rightarrow> month_entry \<Rightarrow> posting list \<Rightarrow> bool" where
  "entry_refines k e ps \<longleftrightarrow>
     total_monthly_expense e = py_sum (month_amounts k ''expense'' ps) \<and>
     total_monthly_income e = py_sum (month_amounts k ''income'' ps) \<and>
     income e = total_monthly_income e \<and>
     distinct (map fst (expenses e)) \<and>
     (\<forall>c. map_of (expenses e) c =
            (if category_amounts k c ps = [] then None
             else Some (py_sum (category_amounts k c ps))))"

definition refines :: "monthly \<Rightarrow> posting list \<Rightarrow> bool" where
  "refines md ps \<longleftrightarrow>
     distinct (map fst md) \<and>
     (\<forall>k. case map_of md k of
             None \<Rightarrow> (\<forall>p \<in> set ps. post_key p \<noteq> k)
           | Some e \<Rightarrow> entry_refines k e ps)"

text \<open>Example data: a time of day, a row with all five columns, and two ledgers.\<close>

definition noon :: datetime where
  "noon = \<lparr>dt_year = 2024, dt_month = 5, dt_day = 1, dt_hour = 12, dt_minute = 0, dt_second = 0\<rparr>"

definition ledger_row :: "string \<Rightarrow> string \<Rightarrow> string \<Rightarrow> cell \<Rightarrow> string \<Rightarrow> row" where
  "ledger_row timestamp description category amount kind =
     [''timestamp'' \<mapsto> CStr timestamp, ''description'' \<mapsto> CStr description,
      ''category'' \<mapsto> CStr category, ''amount'' \<mapsto> amount, ''type'' \<mapsto> CStr kind]"

text \<open>A ledger of two months, the later month first, and the dictionary built from it.\<close>

definition example_ledger :: "row list" where
  "example_ledger =
     [ledger_row ''2025-01-03 08:15:00'' ''bus pass'' ''Transportation'' (CInt 45) ''expense'',
      ledger_row ''2024-12-01 10:00:00'' ''rent'' ''Rent'' (CInt 900) ''expense'',
      ledger_row ''2024-12-05 18:30:00'' ''market'' ''Groceries & Home Needs'' (CInt 60) ''expense'',
      ledger_row ''2024-12-28 09:00:00'' ''salary'' ''Income'' (CInt 2000) ''income'']"

definition example_buckets :: monthly where
  "example_buckets =
     [(''2025-01'',
       \<lparr>month_name = ''January 2025'', expenses = [(''Transportation'', Finite 45)],
        income = Finite 0, total_monthly_expense = Finite 45, total_monthly_income = Finite 0\<rparr>),
      (''2024-12'',
       \<lparr>month_name = ''December 2024'',
        expenses = [(''Rent'', Finite 900), (''Groceries & Home Needs'', Finite 60)],
        income = Finite 2000, total_monthly_expense = Finite 960,
        total_monthly_income = Finite 2000\<rparr>)]"

text \<open>
  Three expenses of one month whose amounts are the doubles written \<^verbatim>\<open>0.1\<close>, \<^verbatim>\<open>0.1\<close> and
  \<^verbatim>\<open>1.1\<close>, in two categories.
\<close>

definition rounding_ledger :: "row list" where
  "rounding_ledger =
     [ledger_row ''2024-05-01 10:00:00'' ''tea'' ''A'' (CFloat (round_double (1 / 10))) ''expense'',
      ledger_row ''2024-05-02 10:00:00'' ''bun'' ''B'' (CFloat (round_double (1 / 10))) ''expense'',
      ledger_row ''2024-05-03 10:00:00'' ''pie'' ''A'' (CFloat (round_double (11 / 10))) ''expense'']"

section \<open>Evaluation lemmas\<close>

lemma floor_rat_numeral_div [simp]:
  "\<lfloor>numeral a / numeral b :: rat\<rfloor> = numeral a div numeral b"
  by (metis floor_divide_of_int_eq of_int_numeral)

lemma bit_length_numeral [simp]:
  "bit_length (numeral k) = Suc (bit_length (numeral k div 2))"
  by (subst bit_length.simps) simp

lemma bit_length_0 [simp]: "bit_length 0 = 0"
  by (simp add: bit_length.simps)

lemma bit_length_1 [simp]: "bit_length 1 = 1" "bit_length (Suc 0) = 1"
  by (simp_all add: bit_length.simps)

lemma str_nat_numeral [simp]:
  "str_nat (numeral k) =
     (if numeral k < (10::nat) then [digit_char (numeral k)]
      else str_nat (numeral k div 10) @ [digit_char (numeral k mod 10)])"
  by (rule str_nat.simps)

lemma str_nat_0 [simp]: "str_nat 0 = ''0''"
  by (simp add: str_nat.simps digit_char_def)

lemma str_nat_1 [simp]: "str_nat 1 = ''1''" "str_nat (Suc 0) = ''1''"
  by (simp_all add: str_nat.simps digit_char_def)

lemma ascii_lib_sel [simp]:
  "lib_float ascii_lib = ascii_float"
  "lib_repr ascii_lib = ascii_repr"
  "lib_strip ascii_lib = ascii_strip"
  "lib_lower ascii_lib = ascii_lower"
  "lib_strptime ascii_lib = ascii_strptime"
  "lib_strftime_Ym ascii_lib = ascii_strftime_Ym"
  "lib_strftime_BY ascii_lib = ascii_strftime_BY"
  "lib_strftime_full ascii_lib = ascii_strftime_full"
  by (simp_all add: ascii_lib_def)

text \<open>The definitions that rounding a number written out unfolds.\<close>

lemmas flt_eval = round_double_def floor_log2_def pow2_def round_half_even_def Let_def

text \<open>A whole number of moderate size is a double, and converting it raises nothing.\<close>

lemma float_of_small_int:
  "\<bar>i\<bar> < 2 ^ 1023 \<Longrightarrow> float_of_int i \<noteq> Inl OverflowError"
  by (simp add: float_of_int_def int_too_large_def)

text \<open>The definitions that evaluating a handler on concrete data unfolds.\<close>

lemmas py_eval =
  ascii_lower_def ascii_lower_char_def ascii_strip_def is_space_def is_digit_def digit_val_def
  digit_char_def pad2_def fmt2_rat_def zero_pyfloat_def minus_pyfloat_def
  float_of_int_def int_too_large_def flt_eval
  ascii_strptime_def ascii_strptime_matches_def re_Y_def re_m_def re_d_def re_H_def re_M_def
  re_S_def two_digits_def one_digit_def lit_def valid_datetime_def days_in_month_def leap_def
  List.bind_def ascii_strftime_Ym_def ascii_strftime_BY_def month_names_def
  ascii_strftime_full_def ledger_row_def row_kind_def get_def dict_get_def

lemmas breakdown_eval = monthly_data_of_def breakdown_step_def breakdown_row_def aggregate_def
  new_month_entry_def

section \<open>The logging path\<close>

text \<open>
  C7: when the validator rejects a record, that is, when the handler reaches line 270 with
  an amount that is not a number or is not positive, nothing is appended to the ledger,
  whatever \<^verbatim>\<open>append_row\<close> would have done, and the reply is the fixed validation-failure
  message.
\<close>

theorem rejected_amount_not_logged:
  assumes "kvs \<noteq> []"
    and "py_lower lib (dict_get kvs ''type'' (JStr ''expense'')) = Inr kind"
    and "amount_rejected (dict_get kvs ''amount'' (JInt 0))"
  shows "handle_message lib append_row now (JObj kvs) sheet =
         (sheet, Inr (Text invalid_amount_msg))"
  using assms by (simp add: handle_message_def Let_def)

theorem rejected_amount_not_logged_witness:
  "handle_message ascii_lib append_in_memory noon
     (JObj [(''description'', JStr ''tea''), (''category'', JStr ''Miscellaneous''),
            (''amount'', JInt (- 5)), (''type'', JStr ''expense'')])
     [[JStr ''2024-04-30 09:00:00'', JStr ''rent'', JStr ''Rent'', JInt 900, JStr ''expense'']]
   = ([[JStr ''2024-04-30 09:00:00'', JStr ''rent'', JStr ''Rent'', JInt 900, JStr ''expense'']],
      Inr (Text ''Sorry, I couldn't extract a valid positive amount from your message. Please try again.''))"
  unfolding invalid_amount_msg_def [symmetric]
  by (rule rejected_amount_not_logged [where kind = "''expense''"])
     (simp_all add: py_eval)

text \<open>The ledger is also unchanged when the handler raises on a kind that is not a string.\<close>

lemma rejected_amount_sheet_unchanged:
  assumes "amount_rejected (dict_get kvs ''amount'' (JInt 0))"
  shows "fst (handle_message lib append_row now (JObj kvs) sheet) = sheet"
  using assms by (simp add: handle_message_def Let_def split: sum.splits)

text \<open>
  The validator asks neither for a finite amount nor for a number in the strict sense: a
  record whose amount is infinite, as \<^verbatim>\<open>json.loads\<close> reads \<^verbatim>\<open>1e999\<close>, is appended and
  confirmed, and so is one whose amount is \<^verbatim>\<open>NaN\<close> or the JSON value \<^verbatim>\<open>true\<close>.
\<close>

theorem infinite_amount_accepted:
  "\<not> spec_valid_amount (JFloat PInf) \<and>
   handle_message ascii_lib append_in_memory noon
     (JObj [(''description'', JStr ''gold''), (''category'', JStr ''Investments''),
            (''amount'', JFloat PInf), (''type'', JStr ''expense'')]) []
   = ([[JStr ''2024-05-01 12:00:00'', JStr ''gold'', JStr ''Investments'', JFloat PInf,
        JStr ''expense'']],
      Inr (Logged ''expense'' (JStr ''gold'') (JFloat PInf))) \<and>
   \<not> spec_valid_amount (JFloat NaN) \<and>
   handle_message ascii_lib append_in_memory noon
     (JObj [(''description'', JStr ''gold''), (''category'', JStr ''Investments''),
            (''amount'', JFloat NaN), (''type'', JStr ''expense'')]) []
   = ([[JStr ''2024-05-01 12:00:00'', JStr ''gold'', JStr ''Investments'', JFloat NaN,
        JStr ''expense'']],
      Inr (Logged ''expense'' (JStr ''gold'') (JFloat NaN))) \<and>
   \<not> spec_valid_amount (JBool True) \<and>
   handle_message ascii_lib append_in_memory noon
     (JObj [(''description'', JStr ''gold''), (''category'', JStr ''Investments''),
            (''amount'', JBool True), (''type'', JStr ''expense'')]) []
   = ([[JStr ''2024-05-01 12:00:00'', JStr ''gold'', JStr ''Investments'', JBool True,
        JStr ''expense'']],
      Inr (Logged ''expense'' (JStr ''gold'') (JBool True)))"
  by (simp add: handle_message_def confirmation_def py_eval append_in_memory_def noon_def)

lemma amount_rejected_iff:
  "amount_rejected a \<longleftrightarrow>
     \<not> (spec_valid_amount a \<or> a = JBool True \<or> a = JFloat PInf \<or> a = JFloat NaN)"
proof (cases a)
  case (JFloat x)
  then show ?thesis by (cases x) auto
qed auto

lemma confirmation_not_text: "confirmation kind d a \<noteq> Text m"
  by (simp add: confirmation_def split: json.splits)

text \<open>
  C6, amended: the validator accepts a record exactly when its amount is a finite number
  strictly greater than zero, positive infinity, \<^verbatim>\<open>NaN\<close> or the JSON value \<^verbatim>\<open>true\<close>; every
  record with another amount (not a number, zero, negative, \<^verbatim>\<open>false\<close>) gets the
  validation-failure reply.
\<close>

theorem validator_accepts_iff:
  assumes "kvs \<noteq> []"
    and "py_lower lib (dict_get kvs ''type'' (JStr ''expense'')) = Inr kind"
  shows "snd (handle_message lib append_row now (JObj kvs) sheet) \<noteq> Inr (Text invalid_amount_msg)
         \<longleftrightarrow>
         spec_valid_amount (dict_get kvs ''amount'' (JInt 0)) \<or>
         dict_get kvs ''amount'' (JInt 0) = JBool True \<or>
         dict_get kvs ''amount'' (JInt 0) = JFloat PInf \<or>
         dict_get kvs ''amount'' (JInt 0) = JFloat NaN"
proof -
  have "snd (handle_message lib append_row now (JObj kvs) sheet) \<noteq> Inr (Text invalid_amount_msg)
        \<longleftrightarrow> \<not> amount_rejected (dict_get kvs ''amount'' (JInt 0))"
    using assms
    by (simp add: handle_message_def Let_def confirmation_not_text
          split: prod.splits option.splits)
  then show ?thesis
    by (simp add: amount_rejected_iff)
qed

theorem validator_accepts_iff_witness:
  "snd (handle_message ascii_lib append_in_memory noon
          (JObj [(''description'', JStr ''salary''), (''category'', JStr ''Income''),
                 (''amount'', JInt 50000), (''type'', JStr ''Income'')]) [])
   \<noteq> Inr (Text invalid_amount_msg) \<and>
   snd (handle_message ascii_lib append_in_memory noon
          (JObj [(''description'', JStr ''salary''), (''category'', JStr ''Income''),
                 (''amount'', JStr ''50000''), (''type'', JStr ''Income'')]) [])
   = Inr (Text invalid_amount_msg)"
  using
    validator_accepts_iff [of "[(''description'', JStr ''salary''), (''category'', JStr ''Income''),
                 (''amount'', JInt 50000), (''type'', JStr ''Income'')]" ascii_lib "''income''"
        append_in_memory noon "[]"]
    validator_accepts_iff [of "[(''description'', JStr ''salary''), (''category'', JStr ''Income''),
                 (''amount'', JStr ''50000''), (''type'', JStr ''Income'')]" ascii_lib "''income''"
        append_in_memory noon "[]"]
  by (simp add: py_eval)

text \<open>
  A kind that is present but is neither \<^verbatim>\<open>expense\<close> nor \<^verbatim>\<open>income\<close> is not replaced: the
  row appended carries it.
\<close>

theorem unrecognized_kind_logged_as_is:
  "handle_message ascii_lib append_in_memory noon
     (JObj [(''description'', JStr ''to savings''), (''category'', JStr ''Investments''),
            (''amount'', JInt 10), (''type'', JStr ''transfer'')]) []
   = ([[JStr ''2024-05-01 12:00:00'', JStr ''to savings'', JStr ''Investments'', JInt 10,
        JStr ''transfer'']],
      Inr (Logged ''transfer'' (JStr ''to savings'') (JInt 10)))"
  by (simp add: handle_message_def confirmation_def py_eval append_in_memory_def noon_def)

text \<open>
  C5, amended: for an extracted record that passes validation, the kind is \<^verbatim>\<open>expense\<close>
  when the extracted kind is absent (\<^verbatim>\<open>lower\<close> leaves that word as it is) and the extracted
  kind in lower case when it is a string, recognized or not; the row handed to
  \<^verbatim>\<open>append_row\<close> carries that kind, and so does the confirmation sent once the row is
  appended. (Only when the amount is an integer too large for a float does formatting the
  confirmation fail, and the failure notice is sent in its place.)
\<close>

theorem logged_kind:
  assumes "kvs \<noteq> []"
    and "\<not> amount_rejected (dict_get kvs ''amount'' (JInt 0))"
    and "map_of kvs ''type'' = None \<and> lib_lower lib ''expense'' = ''expense'' \<and> kind = ''expense'' \<or>
         (\<exists>s. map_of kvs ''type'' = Some (JStr s) \<and> kind = lib_lower lib s)"
  shows "handle_message lib append_row now (JObj kvs) sheet =
         (case append_row
                 [JStr (lib_strftime_full lib now), dict_get kvs ''description'' (JStr ''N/A''),
                  dict_get kvs ''category'' (JStr ''N/A''), dict_get kvs ''amount'' (JInt 0),
                  JStr kind] sheet of
            (sheet', None) \<Rightarrow>
              (sheet',
               Inr (case dict_get kvs ''amount'' (JInt 0) of
                      JInt i \<Rightarrow>
                        if int_too_large i then LogFailed ''int too large to convert to float''
                        else Logged kind (dict_get kvs ''description'' (JStr ''N/A'')) (JInt i)
                    | a \<Rightarrow> Logged kind (dict_get kvs ''description'' (JStr ''N/A'')) a))
          | (sheet', Some e) \<Rightarrow> (sheet', Inr (LogFailed e)))"
proof -
  from assms(3) have "py_lower lib (dict_get kvs ''type'' (JStr ''expense'')) = Inr kind"
    by (auto simp: dict_get_def)
  with assms(1,2) show ?thesis
    by (simp add: handle_message_def Let_def confirmation_def split: json.splits)
qed

theorem logged_kind_witness:
  "handle_message ascii_lib append_in_memory noon
     (JObj [(''description'', JStr ''coffee''), (''category'', JStr ''Miscellaneous''),
            (''amount'', JInt 150)]) []
   = ([[JStr ''2024-05-01 12:00:00'', JStr ''coffee'', JStr ''Miscellaneous'', JInt 150,
        JStr ''expense'']],
      Inr (Logged ''expense'' (JStr ''coffee'') (JInt 150)))"
  using logged_kind [of "[(''description'', JStr ''coffee''), (''category'', JStr ''Miscellaneous''),
                 (''amount'', JInt 150)]" ascii_lib "''expense''" append_in_memory noon "[]"]
  by (simp add: py_eval append_in_memory_def noon_def)

section \<open>The global summary\<close>

lemma for_each_append:
  "for_each f (xs @ ys) s = (case for_each f xs s of Inl e \<Rightarrow> Inl e | Inr s' \<Rightarrow> for_each f ys s')"
  by (induction xs arbitrary: s) (simp_all split: sum.splits)

lemma py_float_raises: "py_float lib c = Inl e \<Longrightarrow> e = ValueError \<or> e = OverflowError"
  by (cases c) (simp_all add: float_of_int_def split: option.splits if_splits)









section \<open>The monthly breakdown: the loop\<close>

lemma py_strptime_raises: "py_strptime lib c = Inl e \<Longrightarrow> e = ValueError \<or> e = TypeError"
  by (cases "(lib, c)" rule: py_strptime.cases) (simp_all split: option.splits)

lemma py_strip_raises:
  "py_strip lib c = Inl e \<Longrightarrow> e = AttributeError (type_name c) ''strip''"
  by (cases c) auto

text \<open>
  The rows the loop passes over: those it sends to \<^verbatim>\<open>continue\<close> at line 181 and those
  whose timestamp \<^verbatim>\<open>strptime\<close> refuses. The category is stripped first, at line 174, and a
  category that is not a string ends the loop there.
\<close>

lemma breakdown_step_passes:
  assumes "py_float lib (get r ''amount'' (CInt 0)) = Inr a"
    and "\<not> truthy (r ''timestamp'') \<or> nonpositive a \<or>
         (\<forall>d. py_strptime lib (r ''timestamp'') \<noteq> Inr d)"
  shows "breakdown_step lib md r =
           (case py_strip lib (get r ''category'' (CStr ''N/A'')) of
              Inl e \<Rightarrow> Inl e
            | Inr c \<Rightarrow> Inr md)"
proof (cases "py_strip lib (get r ''category'' (CStr ''N/A''))")
  case (Inl e)
  then show ?thesis
    by (auto simp: breakdown_step_def breakdown_row_def dest: py_strip_raises)
next
  case strip: (Inr stripped)
  show ?thesis
  proof (cases "\<not> truthy (r ''timestamp'') \<or> nonpositive a")
    case True
    with strip assms(1) show ?thesis
      by (simp add: breakdown_step_def breakdown_row_def Let_def)
  next
    case False
    with assms(2) have "\<forall>d. py_strptime lib (r ''timestamp'') \<noteq> Inr d"
      by auto
    then obtain e where e: "py_strptime lib (r ''timestamp'') = Inl e"
      by (cases "py_strptime lib (r ''timestamp'')") auto
    then have "e = ValueError \<or> e = TypeError" by (rule py_strptime_raises)
    with e strip assms(1) False show ?thesis
      by (auto simp: breakdown_step_def breakdown_row_def Let_def)
  qed
qed

text \<open>One turn of the loop, by the posting of the row.\<close>

lemma breakdown_step_posting:
  assumes "posting_of lib r = Some p"
  shows "breakdown_step lib md r =
         Inr (AList.update (post_key p)
                (aggregate (post_kind p) (post_category p) (post_amount p)
                   (case map_of md (post_key p) of
                      None \<Rightarrow> new_month_entry (post_label p)
                    | Some e \<Rightarrow> e))
                md)"
  using assms
  by (auto simp: posting_of_def breakdown_step_def breakdown_row_def row_kind_def Let_def
      split: sum.splits if_splits option.splits)

lemma breakdown_step_no_posting:
  assumes "posting_of lib r = None" and "breakdown_step lib md r = Inr md'"
  shows "md' = md"
proof (cases "py_strip lib (get r ''category'' (CStr ''N/A''))")
  case (Inl e)
  with assms(2) show ?thesis
    by (auto simp: breakdown_step_def breakdown_row_def dest: py_strip_raises)
next
  case strip: (Inr stripped)
  show ?thesis
  proof (cases "py_float lib (get r ''amount'' (CInt 0))")
    case (Inl e)
    with strip assms(2) py_float_raises [OF Inl] show ?thesis
      by (auto simp: breakdown_step_def breakdown_row_def)
  next
    case (Inr a)
    with strip assms(1)
    have "\<not> truthy (r ''timestamp'') \<or> nonpositive a \<or>
          (\<forall>d. py_strptime lib (r ''timestamp'') \<noteq> Inr d)"
      by (auto simp: posting_of_def split: sum.splits if_splits)
    from breakdown_step_passes [OF Inr this, of md] strip assms(2) show ?thesis
      by simp
  qed
qed

lemma postings_Nil: "postings lib [] = []"
  by (simp add: postings_def map_filter_simps)

lemma postings_Cons:
  "postings lib (r # rs) =
     (case posting_of lib r of None \<Rightarrow> postings lib rs | Some p \<Rightarrow> p # postings lib rs)"
  by (simp add: postings_def map_filter_simps split: option.splits)

lemma postings_append: "postings lib (xs @ ys) = postings lib xs @ postings lib ys"
  by (induction xs) (simp_all add: postings_Nil postings_Cons split: option.splits)

subsection \<open>The dictionary holds the running sums of the postings\<close>

lemma py_sum_Nil: "py_sum [] = 0"
  by (simp add: py_sum_def)

lemma py_sum_snoc: "py_sum (xs @ [a]) = py_sum xs + a"
  by (simp add: py_sum_def)

lemma month_amounts_snoc:
  "month_amounts k kind (ps @ [p]) =
     month_amounts k kind ps @ (if post_key p = k \<and> post_kind p = kind then [post_amount p] else [])"
  by (simp add: month_amounts_def)

lemma category_amounts_snoc:
  "category_amounts k c (ps @ [p]) =
     category_amounts k c ps @
     (if post_key p = k \<and> post_kind p = ''expense'' \<and> post_category p = c
      then [post_amount p] else [])"
  by (simp add: category_amounts_def)

lemma month_amounts_none:
  "\<forall>p \<in> set ps. post_key p \<noteq> k \<Longrightarrow> month_amounts k kind ps = []"
  by (induction ps) (simp_all add: month_amounts_def)

lemma category_amounts_none:
  "\<forall>p \<in> set ps. post_key p \<noteq> k \<Longrightarrow> category_amounts k c ps = []"
  by (induction ps) (simp_all add: category_amounts_def)

lemma new_month_entry_refines:
  "\<forall>p \<in> set ps. post_key p \<noteq> k \<Longrightarrow> entry_refines k (new_month_entry label) ps"
  by (simp add: entry_refines_def new_month_entry_def month_amounts_none category_amounts_none
        py_sum_Nil)

lemma entry_refines_other:
  "post_key p \<noteq> k \<Longrightarrow> entry_refines k e ps \<Longrightarrow> entry_refines k e (ps @ [p])"
  by (simp add: entry_refines_def month_amounts_snoc category_amounts_snoc)

lemma entry_refines_aggregate:
  assumes "entry_refines (post_key p) e ps"
  shows "entry_refines (post_key p)
           (aggregate (post_kind p) (post_category p) (post_amount p) e) (ps @ [p])"
proof (cases "post_kind p = ''expense''")
  case True
  have "map_of (expenses e) (post_category p) =
          (if category_amounts (post_key p) (post_category p) ps = [] then None
           else Some (py_sum (category_amounts (post_key p) (post_category p) ps)))"
    using assms by (simp add: entry_refines_def)
  then have held:
    "(case map_of (expenses e) (post_category p) of None \<Rightarrow> 0 | Some v \<Rightarrow> v) =
       py_sum (category_amounts (post_key p) (post_category p) ps)"
    by (simp add: py_sum_Nil)
  from assms True show ?thesis
    by (simp add: entry_refines_def aggregate_def month_amounts_snoc category_amounts_snoc
          py_sum_snoc py_sum_def distinct_update update_conv' held)
next
  case False
  with assms show ?thesis
    by (simp add: entry_refines_def aggregate_def month_amounts_snoc category_amounts_snoc
          py_sum_snoc)
qed

lemma refines_update:
  assumes "refines md ps"
  shows "refines
           (AList.update (post_key p)
              (aggregate (post_kind p) (post_category p) (post_amount p)
                 (case map_of md (post_key p) of
                    None \<Rightarrow> new_month_entry (post_label p)
                  | Some e \<Rightarrow> e))
              md)
           (ps @ [p])"
proof -
  let ?k = "post_key p"
  let ?e0 = "case map_of md ?k of None \<Rightarrow> new_month_entry (post_label p) | Some e \<Rightarrow> e"
  from assms have inv: "case map_of md k of
             None \<Rightarrow> (\<forall>p \<in> set ps. post_key p \<noteq> k)
           | Some e \<Rightarrow> entry_refines k e ps" for k
    by (simp add: refines_def)
  have "entry_refines ?k ?e0 ps"
    using inv [of ?k] by (cases "map_of md ?k") (simp_all add: new_month_entry_refines)
  then have here:
    "entry_refines ?k (aggregate (post_kind p) (post_category p) (post_amount p) ?e0) (ps @ [p])"
    by (rule entry_refines_aggregate)
  have other: "case map_of md k of
             None \<Rightarrow> (\<forall>q \<in> set (ps @ [p]). post_key q \<noteq> k)
           | Some e \<Rightarrow> entry_refines k e (ps @ [p])" if "k \<noteq> ?k" for k
    using inv [of k] that by (cases "map_of md k") (auto intro: entry_refines_other)
  from assms have "distinct (map fst md)"
    by (simp add: refines_def)
  with here other show ?thesis
    by (simp add: refines_def distinct_update update_conv')
qed

lemma breakdown_loop_refines:
  assumes "for_each (breakdown_step lib) records md0 = Inr md" and "refines md0 ps"
  shows "refines md (ps @ postings lib records)"
  using assms
proof (induction records arbitrary: md0 ps)
  case Nil
  then show ?case by (simp add: postings_Nil)
next
  case (Cons r rs)
  from Cons.prems(1) obtain md1 where step: "breakdown_step lib md0 r = Inr md1"
    and rest: "for_each (breakdown_step lib) rs md1 = Inr md"
    by (auto split: sum.splits)
  show ?case
  proof (cases "posting_of lib r")
    case None
    from None step have "md1 = md0" by (rule breakdown_step_no_posting)
    with rest Cons.prems(2) None show ?thesis
      by (simp add: postings_Cons Cons.IH)
  next
    case (Some p)
    with step have "md1 =
        AList.update (post_key p)
          (aggregate (post_kind p) (post_category p) (post_amount p)
             (case map_of md0 (post_key p) of
                None \<Rightarrow> new_month_entry (post_label p)
              | Some e \<Rightarrow> e))
          md0"
      by (simp add: breakdown_step_posting)
    with refines_update [OF Cons.prems(2), of p] have "refines md1 (ps @ [p])"
      by simp
    from Cons.IH [OF rest this] Some show ?thesis
      by (simp add: postings_Cons)
  qed
qed

text \<open>
  The dictionary the loop ends with has one entry per month that has a posting, and each
  entry holds the running sums of the postings of its month.
\<close>

lemma monthly_data_refines:
  assumes "monthly_data_of lib records = Inr md"
  shows "refines md (postings lib records)"
proof -
  have "refines [] []"
    by (simp add: refines_def)
  from breakdown_loop_refines [OF assms [unfolded monthly_data_of_def] this] show ?thesis
    by simp
qed

lemma monthly_data_distinct:
  "monthly_data_of lib records = Inr md \<Longrightarrow> distinct (map fst md)"
  by (drule monthly_data_refines) (simp add: refines_def)

lemma monthly_data_entry:
  assumes "monthly_data_of lib records = Inr md" and "(k, e) \<in> set md"
  shows "entry_refines k e (postings lib records)"
proof -
  from assms(1) have r: "refines md (postings lib records)"
    by (rule monthly_data_refines)
  then have "distinct (map fst md)"
    by (simp add: refines_def)
  with assms(2) have "map_of md k = Some e"
    by simp
  with r show ?thesis
    by (auto simp: refines_def dest: spec [of _ k])
qed

end
